theory Spec2Isabelle
  imports Complex_Main "HOL-Library.Char_ord" "HOL-Library.List_Lexorder"
begin

section \<open>Data model (utils/storage.ts, the source file part_000)\<close>

text \<open>
  A JavaScript \<^verbatim>\<open>number\<close> is only stored, compared and copied by the code below (and
  rounded down once, in a prompt), so a finite number is modelled as a rational; \<^verbatim>\<open>NaN\<close>
  and the infinities are left out. A \<^verbatim>\<open>string\<close> is a \<^typ>\<open>string\<close>, ordered
  lexicographically as the store orders a text column.
\<close>

type_synonym number = rat

text \<open>
  \<^verbatim>\<open>interface VideoSession\<close> (lines 3-12). The field \<^verbatim>\<open>id\<close> is named \<open>id_vs\<close>
  here, since \<open>id\<close> is the identity function of HOL.
\<close>

record VideoSession =
  id_vs :: string
  video_id :: string
  title :: string
  thumbnail :: string
  progress :: number
  duration :: number
  last_watched :: string
  user_id :: string

text \<open>The element types of \<^verbatim>\<open>flashcards\<close> and \<^verbatim>\<open>quiz_questions\<close> (lines 19-20).\<close>

record Flashcard =
  question :: string
  answer :: string

record QuizQuestion =
  quiz_question :: string
  options :: "string list"
  correct :: number

text \<open>
  \<^verbatim>\<open>interface PauseInsight\<close> (lines 14-23); \<^verbatim>\<open>id\<close> and \<^verbatim>\<open>user_id\<close> carry the suffix
  \<open>_pi\<close> to keep them apart from the fields of \<open>VideoSession\<close>.
\<close>

record PauseInsight =
  id_pi :: string
  session_id :: string
  timestamp :: number
  summary :: string
  flashcards :: "Flashcard list"
  quiz_questions :: "QuizQuestion list"
  user_id_pi :: string
  created_at :: string

subsection \<open>The remote record store\<close>

text \<open>
  Modelled from the spec: the client object \<^verbatim>\<open>blink\<close> of \<^verbatim>\<open>../blink/client\<close> is not among
  the sources. The spec (section 6) gives the remote record store, per record kind, the
  operations \<^verbatim>\<open>list(filter, order, limit)\<close>, \<^verbatim>\<open>create(record)\<close> and
  \<^verbatim>\<open>update(id, partial)\<close>, and says that field names on the wire use another casing than
  the in-memory names (\<^verbatim>\<open>video_id\<close> in memory, \<^verbatim>\<open>videoId\<close> on the wire). The rows of the
  store therefore carry the camelCase names that the source writes in its queries and in
  the objects it passes to \<^verbatim>\<open>create\<close> and \<^verbatim>\<open>update\<close> (lines 54-55, 76, 81-98, 130-131,
  151-160). Names shared with the in-memory records carry the prefix \<open>w_\<close> (sessions) or
  \<open>wi_\<close> (insights).
\<close>

record SessionRow =
  w_id :: string
  videoId :: string
  w_title :: string
  w_thumbnail :: string
  w_progress :: number
  w_duration :: number
  lastWatched :: string
  userId :: string

record InsightRow =
  wi_id :: string
  sessionId :: string
  wi_timestamp :: number
  wi_summary :: string
  wi_flashcards :: "Flashcard list"
  quizQuestions :: "QuizQuestion list"
  wi_userId :: string
  createdAt :: string

text \<open>
  Modelled from the spec: \<^verbatim>\<open>list(filter, order, limit)\<close> keeps the rows that satisfy the
  filter, orders them and returns at most \<open>limit\<close> of them. \<open>asc\<close> and \<open>desc\<close> are the two
  orders the source asks for.
\<close>

definition list_rows :: "('r \<Rightarrow> bool) \<Rightarrow> ('r list \<Rightarrow> 'r list) \<Rightarrow> nat option \<Rightarrow> 'r list \<Rightarrow> 'r list" where
  "list_rows wh order limit rows =
     (case limit of None \<Rightarrow> order (filter wh rows) | Some n \<Rightarrow> take n (order (filter wh rows)))"

definition unordered :: "'r list \<Rightarrow> 'r list" where
  "unordered rows = rows"

definition asc :: "('r \<Rightarrow> 'k::linorder) \<Rightarrow> 'r list \<Rightarrow> 'r list" where
  "asc key rows = sort_key key rows"

definition desc :: "('r \<Rightarrow> 'k::linorder) \<Rightarrow> 'r list \<Rightarrow> 'r list" where
  "desc key rows = rev (sort_key key rows)"

text \<open>
  Modelled from the spec: \<^verbatim>\<open>update(id, partial)\<close> applies the partial record to the rows
  with that id; \<^verbatim>\<open>create(record)\<close> adds the row.
\<close>

definition update_rows :: "string \<Rightarrow> (SessionRow \<Rightarrow> SessionRow) \<Rightarrow> SessionRow list \<Rightarrow> SessionRow list" where
  "update_rows i partial rows = map (\<lambda>r. if w_id r = i then partial r else r) rows"

definition create_row :: "'r \<Rightarrow> 'r list \<Rightarrow> 'r list" where
  "create_row r rows = rows @ [r]"

subsection \<open>Objects at run time, local storage, the world\<close>

text \<open>
  The TypeScript interfaces are erased at run time. \<^verbatim>\<open>getVideoSessions\<close> returns what
  \<^verbatim>\<open>blink.db.videoSessions.list\<close> returned as it is (line 53), so an object typed
  \<^verbatim>\<open>VideoSession\<close> is either one with the in-memory names (\<open>Mem\<close>) or a row of the store
  with the names of the wire (\<open>Wire\<close>). Likewise for insights.
\<close>

datatype session_obj = Mem VideoSession | Wire SessionRow

datatype insight_obj = MemI PauseInsight | WireI InsightRow

text \<open>
  Reading a property of such an object: \<open>None\<close> is JavaScript's \<^verbatim>\<open>undefined\<close>, the value
  of a property the object does not have.
\<close>

fun get_id :: "session_obj \<Rightarrow> string option" where
  "get_id (Mem s) = Some (id_vs s)"
| "get_id (Wire r) = Some (w_id r)"

fun get_video_id :: "session_obj \<Rightarrow> string option" where
  "get_video_id (Mem s) = Some (video_id s)"
| "get_video_id (Wire r) = None"

fun get_thumbnail :: "session_obj \<Rightarrow> string option" where
  "get_thumbnail (Mem s) = Some (thumbnail s)"
| "get_thumbnail (Wire r) = Some (w_thumbnail r)"

fun get_last_watched :: "session_obj \<Rightarrow> string option" where
  "get_last_watched (Mem s) = Some (last_watched s)"
| "get_last_watched (Wire r) = None"

fun get_user_id :: "session_obj \<Rightarrow> string option" where
  "get_user_id (Mem s) = Some (user_id s)"
| "get_user_id (Wire r) = None"

fun get_timestamp :: "insight_obj \<Rightarrow> number option" where
  "get_timestamp (MemI i) = Some (timestamp i)"
| "get_timestamp (WireI r) = Some (wi_timestamp r)"

fun get_session_id :: "insight_obj \<Rightarrow> string option" where
  "get_session_id (MemI i) = Some (session_id i)"
| "get_session_id (WireI r) = None"

text \<open>
  A value of \<^verbatim>\<open>localStorage\<close> is a string. It is modelled by what the source makes of
  it: \<open>Json xs\<close> is the string \<^verbatim>\<open>JSON.stringify(xs)\<close>, which \<^verbatim>\<open>JSON.parse\<close> decodes to
  \<open>xs\<close>; \<open>Blank\<close> is the empty string, which is falsy; \<open>Malformed\<close> is a non-empty string
  that \<^verbatim>\<open>JSON.parse\<close> rejects with a \<^verbatim>\<open>SyntaxError\<close>. (A string that decodes to something
  other than an array of such objects is outside the model.)
\<close>

datatype 'a stored = Json "'a list" | Blank | Malformed

datatype error = SyntaxError

text \<open>
  The world the facade runs in.
  \<^item> \<open>dbAvailable\<close> is the private field of \<^verbatim>\<open>StorageManager\<close> (line 26).
  \<^item> \<open>videoSessions\<close> and \<open>pauseInsights\<close> are the tables of the remote store.
  \<^item> \<open>backend\<close> is the behaviour of the remote store: \<open>backend w n\<close> tells whether the
    \<open>n\<close>-th remote call from now on is answered (\<open>True\<close>) or rejected (\<open>False\<close>).
  \<^item> \<open>ls_video_sessions\<close> and \<open>ls_pause_insights\<close> are local storage: the value under the
    key \<^verbatim>\<open>video_sessions_${userId}\<close>, respectively \<^verbatim>\<open>pause_insights_${sessionId}\<close>, as a
    function of the id that completes the key. The two prefixes differ, so the two
    families of keys never meet. \<^verbatim>\<open>setItem\<close> is taken to store the value: a full store,
    the one failure that would reach the caller of a save, is not modelled.
\<close>

record world =
  dbAvailable :: bool
  videoSessions :: "SessionRow list"
  pauseInsights :: "InsightRow list"
  backend :: "nat \<Rightarrow> bool"
  ls_video_sessions :: "string \<Rightarrow> session_obj stored option"
  ls_pause_insights :: "string \<Rightarrow> insight_obj stored option"

text \<open>One remote call has been made: the behaviour moves on by one.\<close>

definition tick :: "world \<Rightarrow> world" where
  "tick w = w\<lparr>backend := (\<lambda>n. backend w (Suc n))\<rparr>"

text \<open>
  Modelled from the spec: the remote calls that the source makes on \<^verbatim>\<open>blink.db\<close>, each
  answered or rejected as \<open>backend\<close> says. A rejected call (\<open>None\<close>, \<open>False\<close>) is a rejected
  promise, which \<^verbatim>\<open>await\<close> throws; it leaves the tables as they are.
\<close>

definition db_videoSessions_list ::
  "(SessionRow \<Rightarrow> bool) \<Rightarrow> (SessionRow list \<Rightarrow> SessionRow list) \<Rightarrow> nat option \<Rightarrow> world
     \<Rightarrow> SessionRow list option \<times> world" where
  "db_videoSessions_list wh order limit w =
     (if backend w 0 then (Some (list_rows wh order limit (videoSessions w)), tick w)
      else (None, tick w))"

definition db_videoSessions_update :: "string \<Rightarrow> (SessionRow \<Rightarrow> SessionRow) \<Rightarrow> world \<Rightarrow> bool \<times> world" where
  "db_videoSessions_update i partial w =
     (if backend w 0 then (True, tick (w\<lparr>videoSessions := update_rows i partial (videoSessions w)\<rparr>))
      else (False, tick w))"

definition db_videoSessions_create :: "SessionRow \<Rightarrow> world \<Rightarrow> bool \<times> world" where
  "db_videoSessions_create r w =
     (if backend w 0 then (True, tick (w\<lparr>videoSessions := create_row r (videoSessions w)\<rparr>))
      else (False, tick w))"

definition db_pauseInsights_list ::
  "(InsightRow \<Rightarrow> bool) \<Rightarrow> (InsightRow list \<Rightarrow> InsightRow list) \<Rightarrow> nat option \<Rightarrow> world
     \<Rightarrow> InsightRow list option \<times> world" where
  "db_pauseInsights_list wh order limit w =
     (if backend w 0 then (Some (list_rows wh order limit (pauseInsights w)), tick w)
      else (None, tick w))"

definition db_pauseInsights_create :: "InsightRow \<Rightarrow> world \<Rightarrow> bool \<times> world" where
  "db_pauseInsights_create r w =
     (if backend w 0 then (True, tick (w\<lparr>pauseInsights := create_row r (pauseInsights w)\<rparr>))
      else (False, tick w))"

section \<open>StorageManager (utils/storage.ts, lines 25-177)\<close>

text \<open>\<^verbatim>\<open>checkDatabaseAvailability\<close> (lines 28-44): the probe is \<^verbatim>\<open>list({ limit: 1 })\<close>.\<close>

definition checkDatabaseAvailability :: "world \<Rightarrow> bool \<times> world" where
  "checkDatabaseAvailability w =
     (case db_videoSessions_list (\<lambda>r. True) unordered (Some 1) w of
        (Some rows, w') \<Rightarrow> (True, w'\<lparr>dbAvailable := True\<rparr>)
      | (None, w') \<Rightarrow> (False, w'\<lparr>dbAvailable := False\<rparr>))"

text \<open>
  Lines 64-66 and 139-141: \<^verbatim>\<open>getItem\<close>, then \<^verbatim>\<open>x ? JSON.parse(x) : []\<close>. An absent key
  gives \<^verbatim>\<open>null\<close>, which is falsy like the empty string.
\<close>

definition parse_or_empty :: "'a stored option \<Rightarrow> error + 'a list" where
  "parse_or_empty x =
     (case x of
        None \<Rightarrow> Inr []
      | Some Blank \<Rightarrow> Inr []
      | Some Malformed \<Rightarrow> Inl SyntaxError
      | Some (Json xs) \<Rightarrow> Inr xs)"

text \<open>\<^verbatim>\<open>getVideoSessions\<close> (lines 47-67).\<close>

definition getVideoSessions :: "string \<Rightarrow> world \<Rightarrow> (error + session_obj list) \<times> world" where
  "getVideoSessions userId' w =
     (let (b, w1) = checkDatabaseAvailability w;
          fallback = (\<lambda>w'. (parse_or_empty (ls_video_sessions w' userId'), w'))
      in if dbAvailable w1 then
           (case db_videoSessions_list (\<lambda>r. userId r = userId') (desc lastWatched) (Some 20) w1 of
              (Some rows, w2) \<Rightarrow> (Inr (map Wire rows), w2)
            | (None, w2) \<Rightarrow> fallback (w2\<lparr>dbAvailable := False\<rparr>))
         else fallback w1)"

text \<open>
  \<^verbatim>\<open>sessions.findIndex(s => s.video_id === session.video_id)\<close> (line 109): the index of
  the first object whose \<^verbatim>\<open>video_id\<close> is that string, \<open>None\<close> for \<^verbatim>\<open>-1\<close>. An object without
  the property compares \<^verbatim>\<open>undefined\<close> with a string, which is false.
\<close>

fun findIndex :: "('a \<Rightarrow> bool) \<Rightarrow> 'a list \<Rightarrow> nat option" where
  "findIndex p [] = None"
| "findIndex p (x # xs) =
     (if p x then Some 0 else (case findIndex p xs of None \<Rightarrow> None | Some i \<Rightarrow> Some (Suc i)))"

text \<open>
  Lines 109-118: replace the entry found, or \<^verbatim>\<open>unshift\<close> the session, then
  \<^verbatim>\<open>slice(0, 20)\<close>.
\<close>

definition merge_session :: "VideoSession \<Rightarrow> session_obj list \<Rightarrow> session_obj list" where
  "merge_session session sessions =
     (let sessions' =
            (case findIndex (\<lambda>s. get_video_id s = Some (video_id session)) sessions of
               Some existingIndex \<Rightarrow> sessions[existingIndex := Mem session]
             | None \<Rightarrow> Mem session # sessions)
      in take 20 sessions')"

text \<open>
  Lines 107-119 of \<^verbatim>\<open>saveVideoSession\<close>, the part after the remote attempt. When
  \<^verbatim>\<open>getVideoSessions\<close> throws, nothing is written.
\<close>

definition saveVideoSession_local :: "VideoSession \<Rightarrow> world \<Rightarrow> (error + unit) \<times> world" where
  "saveVideoSession_local session w =
     (case getVideoSessions (user_id session) w of
        (Inl e, w') \<Rightarrow> (Inl e, w')
      | (Inr sessions, w') \<Rightarrow>
          (Inr (),
           w'\<lparr>ls_video_sessions :=
                (ls_video_sessions w')(user_id session \<mapsto> Json (merge_session session sessions))\<rparr>))"

text \<open>The object passed to \<^verbatim>\<open>create\<close> (lines 89-98) and the one passed to \<^verbatim>\<open>update\<close> (lines 81-86).\<close>

definition session_row :: "VideoSession \<Rightarrow> SessionRow" where
  "session_row session =
     \<lparr>w_id = id_vs session,
      videoId = video_id session,
      w_title = title session,
      w_thumbnail = thumbnail session,
      w_progress = progress session,
      w_duration = duration session,
      lastWatched = last_watched session,
      userId = user_id session\<rparr>"

definition session_partial :: "VideoSession \<Rightarrow> SessionRow \<Rightarrow> SessionRow" where
  "session_partial session r =
     r\<lparr>w_title := title session,
       w_progress := progress session,
       w_duration := duration session,
       lastWatched := last_watched session\<rparr>"

text \<open>\<^verbatim>\<open>saveVideoSession\<close> (lines 69-120).\<close>

definition saveVideoSession :: "VideoSession \<Rightarrow> world \<Rightarrow> (error + unit) \<times> world" where
  "saveVideoSession session w =
     (let (b, w1) = checkDatabaseAvailability w
      in if dbAvailable w1 then
           (case db_videoSessions_list
                   (\<lambda>r. videoId r = video_id session \<and> userId r = user_id session)
                   unordered (Some 1) w1 of
              (Some existing, w2) \<Rightarrow>
                (case (case existing of
                         r # rest \<Rightarrow> db_videoSessions_update (w_id r) (session_partial session) w2
                       | [] \<Rightarrow> db_videoSessions_create (session_row session) w2) of
                   (True, w3) \<Rightarrow> (Inr (), w3)
                 | (False, w3) \<Rightarrow> saveVideoSession_local session (w3\<lparr>dbAvailable := False\<rparr>))
            | (None, w2) \<Rightarrow> saveVideoSession_local session (w2\<lparr>dbAvailable := False\<rparr>))
         else saveVideoSession_local session w1)"

text \<open>\<^verbatim>\<open>getPauseInsights\<close> (lines 123-142): no limit in this query.\<close>

definition getPauseInsights :: "string \<Rightarrow> world \<Rightarrow> (error + insight_obj list) \<times> world" where
  "getPauseInsights sessionId' w =
     (let (b, w1) = checkDatabaseAvailability w;
          fallback = (\<lambda>w'. (parse_or_empty (ls_pause_insights w' sessionId'), w'))
      in if dbAvailable w1 then
           (case db_pauseInsights_list (\<lambda>r. sessionId r = sessionId') (asc wi_timestamp) None w1 of
              (Some rows, w2) \<Rightarrow> (Inr (map WireI rows), w2)
            | (None, w2) \<Rightarrow> fallback (w2\<lparr>dbAvailable := False\<rparr>))
         else fallback w1)"

text \<open>Lines 168-171 of \<^verbatim>\<open>savePauseInsight\<close>, the part after the remote attempt.\<close>

definition savePauseInsight_local :: "PauseInsight \<Rightarrow> world \<Rightarrow> (error + unit) \<times> world" where
  "savePauseInsight_local insight w =
     (case getPauseInsights (session_id insight) w of
        (Inl e, w') \<Rightarrow> (Inl e, w')
      | (Inr insights, w') \<Rightarrow>
          (Inr (),
           w'\<lparr>ls_pause_insights :=
                (ls_pause_insights w')(session_id insight \<mapsto> Json (insights @ [MemI insight]))\<rparr>))"

text \<open>The object passed to \<^verbatim>\<open>create\<close> (lines 151-160).\<close>

definition insight_row :: "PauseInsight \<Rightarrow> InsightRow" where
  "insight_row insight =
     \<lparr>wi_id = id_pi insight,
      sessionId = session_id insight,
      wi_timestamp = timestamp insight,
      wi_summary = summary insight,
      wi_flashcards = flashcards insight,
      quizQuestions = quiz_questions insight,
      wi_userId = user_id_pi insight,
      createdAt = created_at insight\<rparr>"

text \<open>\<^verbatim>\<open>savePauseInsight\<close> (lines 144-172).\<close>

definition savePauseInsight :: "PauseInsight \<Rightarrow> world \<Rightarrow> (error + unit) \<times> world" where
  "savePauseInsight insight w =
     (let (b, w1) = checkDatabaseAvailability w
      in if dbAvailable w1 then
           (case db_pauseInsights_create (insight_row insight) w1 of
              (True, w2) \<Rightarrow> (Inr (), w2)
            | (False, w2) \<Rightarrow> savePauseInsight_local insight (w2\<lparr>dbAvailable := False\<rparr>))
         else savePauseInsight_local insight w1)"

text \<open>\<^verbatim>\<open>isDatabaseAvailable\<close> (lines 174-176).\<close>

definition isDatabaseAvailable :: "world \<Rightarrow> bool" where
  "isDatabaseAvailable w = dbAvailable w"

section \<open>The pause handler (components/VideoPlayer.tsx, the source file part_001, lines 60-125)\<close>

text \<open>
  The state of the component that \<^verbatim>\<open>handlePause\<close> writes, and \<open>prompts\<close>: the requests
  sent to \<^verbatim>\<open>blink.ai.generateText\<close> so far, each given by the two values its prompt is
  built from (the video id and \<^verbatim>\<open>Math.floor(timestamp)\<close>).
\<close>

record player =
  generatingInsights :: bool
  showInsights :: bool
  insights :: "PauseInsight option"
  prompts :: "(string \<times> int) list"

text \<open>
  The answer of the generative-text service, an external collaborator: the request is
  rejected, or it returns a text; \<^verbatim>\<open>JSON.parse(text)\<close> throws (\<open>None\<close>) or gives an object
  from which \<^verbatim>\<open>summary\<close>, \<^verbatim>\<open>flashcards\<close> and \<^verbatim>\<open>quiz\<close> are read.
\<close>

record parsedInsights =
  p_summary :: string
  p_flashcards :: "Flashcard list"
  p_quiz :: "QuizQuestion list"

datatype generated = Rejected | Text "parsedInsights option"

text \<open>The insight of lines 105-116, shown when the text does not parse or the save throws.\<close>

definition fallback_insight :: "string \<Rightarrow> string \<Rightarrow> string \<Rightarrow> string \<Rightarrow> number \<Rightarrow> PauseInsight" where
  "fallback_insight videoId' userId' now today timestamp' =
     \<lparr>id_pi = ''insight_'' @ now,
      session_id = ''session_'' @ videoId' @ ''_'' @ userId',
      timestamp = timestamp',
      summary = ''AI-generated summary will appear here when you pause the video.'',
      flashcards =
        [\<lparr>question = ''What is the main topic?'',
          answer = ''The main topic will be identified from the video content.''\<rparr>,
         \<lparr>question = ''What are the key takeaways?'',
          answer = ''Key takeaways will be summarized automatically.''\<rparr>],
      quiz_questions =
        [\<lparr>quiz_question = ''Sample quiz question'',
          options = [''Option A'', ''Option B'', ''Option C'', ''Option D''],
          correct = 0\<rparr>],
      user_id_pi = userId',
      created_at = today\<rparr>"

text \<open>
  \<^verbatim>\<open>handlePause\<close> (lines 60-125). \<open>videoId'\<close> and \<open>userId'\<close> are the props, \<open>now\<close> is the
  decimal text of \<^verbatim>\<open>Date.now()\<close> and \<open>today\<close> that of \<^verbatim>\<open>new Date().toISOString()\<close>, \<open>reply\<close> is
  what the service answers to this request. The inner \<^verbatim>\<open>catch\<close> (line 102) also catches
  what \<^verbatim>\<open>savePauseInsight\<close> throws.
\<close>

definition handlePause ::
  "string \<Rightarrow> string \<Rightarrow> string \<Rightarrow> string \<Rightarrow> generated \<Rightarrow> number \<Rightarrow> player \<times> world \<Rightarrow> player \<times> world" where
  "handlePause videoId' userId' now today reply timestamp' pw =
     (case pw of (p, w) \<Rightarrow>
        if timestamp' < 30 then (p, w)
        else
          (let p1 = p\<lparr>generatingInsights := True, showInsights := True,
                      prompts := prompts p @ [(videoId', \<lfloor>timestamp'\<rfloor>)]\<rparr>
           in case reply of
                Rejected \<Rightarrow> (p1\<lparr>generatingInsights := False\<rparr>, w)
              | Text None \<Rightarrow>
                  (p1\<lparr>insights := Some (fallback_insight videoId' userId' now today timestamp'),
                      generatingInsights := False\<rparr>, w)
              | Text (Some parsed) \<Rightarrow>
                  (let newInsight =
                         \<lparr>id_pi = ''insight_'' @ now,
                          session_id = ''session_'' @ videoId' @ ''_'' @ userId',
                          timestamp = timestamp',
                          summary = p_summary parsed,
                          flashcards = p_flashcards parsed,
                          quiz_questions = p_quiz parsed,
                          user_id_pi = userId',
                          created_at = today\<rparr>
                   in case savePauseInsight newInsight w of
                        (Inr u, w') \<Rightarrow>
                          (p1\<lparr>insights := Some newInsight, generatingInsights := False\<rparr>, w')
                      | (Inl e, w') \<Rightarrow>
                          (p1\<lparr>insights := Some (fallback_insight videoId' userId' now today timestamp'),
                              generatingInsights := False\<rparr>, w'))))"

section \<open>Sequences of calls\<close>

text \<open>
  The claims speak of sequences of calls of the facade and of what the caller observes.
  A \<open>call\<close> is one call of the four operations, a \<open>reply\<close> is what the caller gets back
  (\<open>Raised\<close> for a rejected promise), and \<open>run\<close> makes the calls one after the other.
\<close>

datatype call =
  ListSessions string
| SaveSession VideoSession
| ListInsights string
| SaveInsight PauseInsight

datatype reply =
  Sessions "session_obj list"
| Insights "insight_obj list"
| Done
| Raised error

fun perform :: "call \<Rightarrow> world \<Rightarrow> reply \<times> world" where
  "perform (ListSessions u) w =
     (case getVideoSessions u w of (Inl e, w') \<Rightarrow> (Raised e, w') | (Inr xs, w') \<Rightarrow> (Sessions xs, w'))"
| "perform (SaveSession s) w =
     (case saveVideoSession s w of (Inl e, w') \<Rightarrow> (Raised e, w') | (Inr u, w') \<Rightarrow> (Done, w'))"
| "perform (ListInsights k) w =
     (case getPauseInsights k w of (Inl e, w') \<Rightarrow> (Raised e, w') | (Inr xs, w') \<Rightarrow> (Insights xs, w'))"
| "perform (SaveInsight i) w =
     (case savePauseInsight i w of (Inl e, w') \<Rightarrow> (Raised e, w') | (Inr u, w') \<Rightarrow> (Done, w'))"

fun run :: "call list \<Rightarrow> world \<Rightarrow> reply list \<times> world" where
  "run [] w = ([], w)"
| "run (c # cs) w =
     (case perform c w of (r, w') \<Rightarrow> (case run cs w' of (rs, w'') \<Rightarrow> (r # rs, w'')))"

text \<open>
  The world at the start: the flag as line 26 sets it, both stores empty, and a remote
  store that behaves as \<open>b\<close> says. \<open>always_up\<close> and \<open>always_down\<close> are the two behaviours
  the claims call the remote path and the local path.
\<close>

definition start :: "(nat \<Rightarrow> bool) \<Rightarrow> world" where
  "start b =
     \<lparr>dbAvailable = True, videoSessions = [], pauseInsights = [], backend = b,
      ls_video_sessions = (\<lambda>k. None), ls_pause_insights = (\<lambda>k. None)\<rparr>"

definition always_up :: "world \<Rightarrow> bool" where
  "always_up w = (\<forall>n. backend w n)"

definition always_down :: "world \<Rightarrow> bool" where
  "always_down w = (\<forall>n. \<not> backend w n)"

text \<open>
  A behaviour given by the outcomes of the next remote calls, one after the other; the
  calls after the last one listed are rejected.
\<close>

fun script :: "bool list \<Rightarrow> nat \<Rightarrow> bool" where
  "script [] n = False"
| "script (b # bs) 0 = b"
| "script (b # bs) (Suc n) = script bs n"

subsection \<open>What a save does to a collection\<close>

text \<open>
  \<open>remote_save\<close> is what lines 75-99 do to the table of sessions when every remote call
  is answered; \<open>decoded\<close> is the list that lines 64-66 and 139-141 return for a stored
  value that is not malformed.
\<close>

definition remote_save :: "VideoSession \<Rightarrow> SessionRow list \<Rightarrow> SessionRow list" where
  "remote_save session rows =
     (case list_rows (\<lambda>r. videoId r = video_id session \<and> userId r = user_id session)
             unordered (Some 1) rows of
        r # rest \<Rightarrow> update_rows (w_id r) (session_partial session) rows
      | [] \<Rightarrow> create_row (session_row session) rows)"

definition decoded :: "'a stored option \<Rightarrow> 'a list" where
  "decoded x = (case x of Some (Json xs) \<Rightarrow> xs | _ \<Rightarrow> [])"

subsection \<open>Invariants of the two paths\<close>



definition local_ok :: "session_obj list \<Rightarrow> bool" where
  "local_ok xs =
     (length xs \<le> 20 \<and> distinct (map get_video_id xs) \<and> list_all (\<lambda>x. get_video_id x \<noteq> None) xs)"

definition decodable :: "world \<Rightarrow> bool" where
  "decodable w =
     ((\<forall>u. ls_video_sessions w u \<noteq> Some Malformed) \<and> (\<forall>k. ls_pause_insights w k \<noteq> Some Malformed))"

definition local_inv :: "world \<Rightarrow> bool" where
  "local_inv w =
     (always_down w \<and> decodable w \<and> (\<forall>u. local_ok (decoded (ls_video_sessions w u))))"


subsection \<open>Comparing the two paths\<close>








subsection \<open>Concrete records for the scenarios\<close>

definition ex_session :: "string \<Rightarrow> string \<Rightarrow> string \<Rightarrow> number \<Rightarrow> string \<Rightarrow> VideoSession" where
  "ex_session i v th p t =
     \<lparr>id_vs = i, video_id = v, title = ''Loading...'', thumbnail = th, progress = p,
      duration = 600, last_watched = t, user_id = ''u1''\<rparr>"

definition ex_insight :: "string \<Rightarrow> number \<Rightarrow> PauseInsight" where
  "ex_insight i t =
     \<lparr>id_pi = i, session_id = ''sess1'', timestamp = t, summary = ''Summary'',
      flashcards = [\<lparr>question = ''Q1?'', answer = ''A1''\<rparr>],
      quiz_questions = [\<lparr>quiz_question = ''Quiz?'', options = [''A'', ''B''], correct = 0\<rparr>],
      user_id_pi = ''u1'', created_at = ''2024-05-01T10:00:00.000Z''\<rparr>"

definition ex_player :: player where
  "ex_player = \<lparr>generatingInsights = False, showInsights = False, insights = None, prompts = []\<rparr>"

text \<open>
  Two worlds for the scenarios, with a behaviour of the remote store given as a script:
  one whose remote table holds a session, and one that holds an insight in the remote
  table and another one in local storage.
\<close>

definition ex_remote_session :: "bool list \<Rightarrow> world" where
  "ex_remote_session bs =
     (start (script bs))\<lparr>videoSessions :=
        [session_row (ex_session ''s1'' ''v1'' ''th1'' 0 ''2024-05-01T10:00:00.000Z'')]\<rparr>"

definition ex_two_insights :: "bool list \<Rightarrow> world" where
  "ex_two_insights bs =
     (start (script bs))\<lparr>pauseInsights := [insight_row (ex_insight ''i1'' 30)],
        ls_pause_insights := (\<lambda>k. Some (Json [MemI (ex_insight ''i0'' 45)]))\<rparr>"

text \<open>
  A sequence of calls: a video saved twice under two ids, and two insights saved with the
  later pause first.
\<close>

definition ex_calls :: "call list" where
  "ex_calls =
     [SaveSession (ex_session ''s1'' ''v1'' ''th1'' 0 ''2024-05-01T10:00:00.000Z''),
      SaveSession (ex_session ''s2'' ''v1'' ''th2'' 120 ''2024-05-01T11:00:00.000Z''),
      SaveInsight (ex_insight ''i1'' 90), SaveInsight (ex_insight ''i2'' 30)]"

abbreviation t10 :: string where "t10 \<equiv> ''2024-05-01T10:00:00.000Z''"
abbreviation t11 :: string where "t11 \<equiv> ''2024-05-01T11:00:00.000Z''"
abbreviation t12 :: string where "t12 \<equiv> ''2024-05-01T12:00:00.000Z''"

section \<open>The facade, call by call\<close>

lemmas call_defs =
  saveVideoSession_def saveVideoSession_local_def getVideoSessions_def
  getPauseInsights_def savePauseInsight_def savePauseInsight_local_def
  checkDatabaseAvailability_def db_videoSessions_list_def db_videoSessions_update_def
  db_videoSessions_create_def db_pauseInsights_list_def db_pauseInsights_create_def tick_def

lemmas store_defs =
  parse_or_empty_def merge_session_def list_rows_def unordered_def asc_def desc_def
  create_row_def update_rows_def session_row_def session_partial_def insight_row_def

lemmas ex_defs =
  start_def ex_session_def ex_insight_def ex_player_def ex_remote_session_def ex_two_insights_def
  ex_calls_def

text \<open>What each operation returns and leaves behind, by the outcomes of its remote calls.\<close>

lemma getVideoSessions_remote:
  "backend w 0 \<Longrightarrow> backend w 1 \<Longrightarrow>
   getVideoSessions u w =
     (Inr (map Wire (list_rows (\<lambda>r. userId r = u) (desc lastWatched) (Some 20) (videoSessions w))),
      (tick (tick w))\<lparr>dbAvailable := True\<rparr>)"
  by (simp add: call_defs)

lemma getVideoSessions_probe_fails:
  "\<not> backend w 0 \<Longrightarrow>
   getVideoSessions u w = (parse_or_empty (ls_video_sessions w u), (tick w)\<lparr>dbAvailable := False\<rparr>)"
  by (simp add: call_defs)

lemma getVideoSessions_query_fails:
  "backend w 0 \<Longrightarrow> \<not> backend w 1 \<Longrightarrow>
   getVideoSessions u w =
     (parse_or_empty (ls_video_sessions w u), (tick (tick w))\<lparr>dbAvailable := False\<rparr>)"
  by (simp add: call_defs)

lemma getPauseInsights_remote:
  "backend w 0 \<Longrightarrow> backend w 1 \<Longrightarrow>
   getPauseInsights k w =
     (Inr (map WireI (list_rows (\<lambda>r. sessionId r = k) (asc wi_timestamp) None (pauseInsights w))),
      (tick (tick w))\<lparr>dbAvailable := True\<rparr>)"
  by (simp add: call_defs)

lemma getPauseInsights_probe_fails:
  "\<not> backend w 0 \<Longrightarrow>
   getPauseInsights k w = (parse_or_empty (ls_pause_insights w k), (tick w)\<lparr>dbAvailable := False\<rparr>)"
  by (simp add: call_defs)

lemma getPauseInsights_query_fails:
  "backend w 0 \<Longrightarrow> \<not> backend w 1 \<Longrightarrow>
   getPauseInsights k w =
     (parse_or_empty (ls_pause_insights w k), (tick (tick w))\<lparr>dbAvailable := False\<rparr>)"
  by (simp add: call_defs)

lemma saveVideoSession_remote:
  "backend w 0 \<Longrightarrow> backend w 1 \<Longrightarrow> backend w 2 \<Longrightarrow>
   saveVideoSession s w =
     (Inr (), (tick (tick (tick w)))\<lparr>dbAvailable := True,
        videoSessions := remote_save s (videoSessions w)\<rparr>)"
  by (simp add: call_defs remote_save_def numeral_2_eq_2 split: list.splits)

lemma savePauseInsight_remote:
  "backend w 0 \<Longrightarrow> backend w 1 \<Longrightarrow>
   savePauseInsight i w =
     (Inr (), (tick (tick w))\<lparr>dbAvailable := True,
        pauseInsights := create_row (insight_row i) (pauseInsights w)\<rparr>)"
  by (simp add: call_defs)

lemma saveVideoSession_down:
  "\<not> backend w 0 \<Longrightarrow> \<not> backend w 1 \<Longrightarrow> ls_video_sessions w (user_id s) \<noteq> Some Malformed \<Longrightarrow>
   saveVideoSession s w =
     (Inr (), (tick (tick w))\<lparr>dbAvailable := False,
        ls_video_sessions := (ls_video_sessions w)(user_id s \<mapsto>
           Json (merge_session s (decoded (ls_video_sessions w (user_id s)))))\<rparr>)"
  by (simp add: call_defs parse_or_empty_def decoded_def split: option.splits stored.splits)

lemma savePauseInsight_down:
  "\<not> backend w 0 \<Longrightarrow> \<not> backend w 1 \<Longrightarrow> ls_pause_insights w (session_id i) \<noteq> Some Malformed \<Longrightarrow>
   savePauseInsight i w =
     (Inr (), (tick (tick w))\<lparr>dbAvailable := False,
        ls_pause_insights := (ls_pause_insights w)(session_id i \<mapsto>
           Json (decoded (ls_pause_insights w (session_id i)) @ [MemI i]))\<rparr>)"
  by (simp add: call_defs parse_or_empty_def decoded_def split: option.splits stored.splits)

section \<open>The merge of lines 109-118 and the remote save\<close>

lemma findIndex_None: "findIndex p xs = None \<longleftrightarrow> (\<forall>x\<in>set xs. \<not> p x)"
  by (induction xs) (auto split: option.splits)

lemma findIndex_Some: "findIndex p xs = Some i \<Longrightarrow> i < length xs \<and> p (xs ! i)"
  by (induction xs arbitrary: i) (auto split: option.splits if_splits)


lemma merge_session_length: "length (merge_session s xs) \<le> 20"
  by (simp add: merge_session_def)

lemma merge_session_distinct:
  assumes "distinct (map get_video_id xs)"
  shows "distinct (map get_video_id (merge_session s xs))"
proof (cases "findIndex (\<lambda>x. get_video_id x = Some (video_id s)) xs")
  case None
  then have "Some (video_id s) \<notin> set (map get_video_id xs)"
    by (auto simp: findIndex_None)
  then have "distinct (map get_video_id (Mem s # xs))" using assms by simp
  then have "distinct (take 20 (map get_video_id (Mem s # xs)))" by (rule distinct_take)
  then have "distinct (map get_video_id (take 20 (Mem s # xs)))" by (simp only: take_map)
  then show ?thesis using None by (simp add: merge_session_def)
next
  case (Some i)
  then have i: "i < length xs" "get_video_id (xs ! i) = Some (video_id s)"
    using findIndex_Some by fastforce+
  have "map get_video_id (xs[i := Mem s]) = map get_video_id xs"
    using i by (simp add: map_update list_update_same_conv)
  then have "distinct (take 20 (map get_video_id (xs[i := Mem s])))" using assms by simp
  then show ?thesis using Some by (simp add: merge_session_def take_map)
qed


lemma merge_session_all:
  assumes "list_all P xs" and "P (Mem s)"
  shows "list_all P (merge_session s xs)"
proof -
  have "set (merge_session s xs) \<subseteq> insert (Mem s) (set xs)"
  proof (cases "findIndex (\<lambda>x. get_video_id x = Some (video_id s)) xs")
    case None
    then show ?thesis using set_take_subset [of 20 "Mem s # xs"]
      by (simp add: merge_session_def del: take_Cons_numeral)
  next
    case (Some i)
    have "set (take 20 (xs[i := Mem s])) \<subseteq> set (xs[i := Mem s])" by (rule set_take_subset)
    also have "\<dots> \<subseteq> insert (Mem s) (set xs)" by (rule set_update_subset_insert)
    finally show ?thesis using Some by (simp add: merge_session_def)
  qed
  then show ?thesis using assms by (auto simp: list_all_iff)
qed

lemma merge_session_ok: "local_ok xs \<Longrightarrow> local_ok (merge_session s xs)"
  by (simp add: local_ok_def merge_session_length merge_session_distinct merge_session_all)







lemma merge_session_Wire:
  "merge_session s (map Wire rows) = take 20 (Mem s # map Wire rows)"
proof -
  have "findIndex (\<lambda>x. get_video_id x = Some (video_id s)) (map Wire rows) = None"
    by (simp add: findIndex_None)
  then show ?thesis by (simp add: merge_session_def)
qed


lemma update_rows_frame:
  "map w_id (update_rows i (session_partial s) rows) = map w_id rows"
  "map videoId (update_rows i (session_partial s) rows) = map videoId rows"
  "map w_thumbnail (update_rows i (session_partial s) rows) = map w_thumbnail rows"
  "map userId (update_rows i (session_partial s) rows) = map userId rows"
  by (induction rows) (simp_all add: update_rows_def session_partial_def)


section \<open>Sequences of calls on the two paths\<close>

lemma always_up_step [simp]:
  "always_up w \<Longrightarrow> always_up (tick w)"
  "always_up (w\<lparr>dbAvailable := d\<rparr>) = always_up w"
  "always_up (w\<lparr>videoSessions := vs\<rparr>) = always_up w"
  "always_up (w\<lparr>pauseInsights := ps\<rparr>) = always_up w"
  by (simp_all add: always_up_def tick_def)

lemma always_down_step [simp]:
  "always_down w \<Longrightarrow> always_down (tick w)"
  "always_down (w\<lparr>dbAvailable := d\<rparr>) = always_down w"
  "always_down (w\<lparr>ls_video_sessions := vs\<rparr>) = always_down w"
  "always_down (w\<lparr>ls_pause_insights := ps\<rparr>) = always_down w"
  by (simp_all add: always_down_def tick_def)

lemma tick_fields [simp]:
  "videoSessions (tick w) = videoSessions w"
  "pauseInsights (tick w) = pauseInsights w"
  "ls_video_sessions (tick w) = ls_video_sessions w"
  "ls_pause_insights (tick w) = ls_pause_insights w"
  "dbAvailable (tick w) = dbAvailable w"
  by (simp_all add: tick_def)

lemma snd_run_Cons: "snd (run (c # cs) w) = snd (run cs (snd (perform c w)))"
  by (cases "perform c w"; cases "run cs (snd (perform c w))"; simp)








lemma parse_decoded: "x \<noteq> Some Malformed \<Longrightarrow> parse_or_empty x = Inr (decoded x)"
  by (simp add: parse_or_empty_def decoded_def split: option.splits stored.splits)

lemma decodable_step [simp]:
  "decodable (tick w) = decodable w"
  "decodable (w\<lparr>dbAvailable := d\<rparr>) = decodable w"
  by (simp_all add: decodable_def tick_def)

lemma perform_down:
  assumes "always_down w" "decodable w"
  shows "always_down (snd (perform c w)) \<and> decodable (snd (perform c w))
     \<and> \<not> dbAvailable (snd (perform c w))
     \<and> videoSessions (snd (perform c w)) = videoSessions w
     \<and> pauseInsights (snd (perform c w)) = pauseInsights w
     \<and> fst (perform c w) =
         (case c of
            ListSessions u \<Rightarrow> Sessions (decoded (ls_video_sessions w u))
          | ListInsights k \<Rightarrow> Insights (decoded (ls_pause_insights w k))
          | _ \<Rightarrow> Done)
     \<and> ls_video_sessions (snd (perform c w)) =
         (case c of
            SaveSession s \<Rightarrow> (ls_video_sessions w)(user_id s \<mapsto>
              Json (merge_session s (decoded (ls_video_sessions w (user_id s)))))
          | _ \<Rightarrow> ls_video_sessions w)
     \<and> ls_pause_insights (snd (perform c w)) =
         (case c of
            SaveInsight i \<Rightarrow> (ls_pause_insights w)(session_id i \<mapsto>
              Json (decoded (ls_pause_insights w (session_id i)) @ [MemI i]))
          | _ \<Rightarrow> ls_pause_insights w)"
proof -
  have b: "\<not> backend w 0" "\<not> backend w 1"
    using assms(1) by (simp_all add: always_down_def)
  have d: "ls_video_sessions w u \<noteq> Some Malformed" "ls_pause_insights w k \<noteq> Some Malformed" for u k
    using assms(2) by (simp_all add: decodable_def)
  show ?thesis
  proof (cases c)
    case (ListSessions u)
    then show ?thesis using assms
      by (simp add: getVideoSessions_probe_fails [OF b(1)] parse_decoded [OF d(1)])
  next
    case (SaveSession s)
    then show ?thesis using assms d
      by (simp add: saveVideoSession_down [OF b d(1)] decodable_def)
  next
    case (ListInsights k)
    then show ?thesis using assms
      by (simp add: getPauseInsights_probe_fails [OF b(1)] parse_decoded [OF d(2)])
  next
    case (SaveInsight i)
    then show ?thesis using assms d
      by (simp add: savePauseInsight_down [OF b d(2)] decodable_def)
  qed
qed

lemma decoded_Json [simp]: "decoded (Some (Json xs)) = xs"
  by (simp add: decoded_def)

lemma perform_local_inv:
  assumes "local_inv w"
  shows "local_inv (snd (perform c w))"
proof -
  have a: "always_down w" "decodable w" and ok: "local_ok (decoded (ls_video_sessions w u))" for u
    using assms by (simp_all add: local_inv_def)
  note p = perform_down [OF a, of c]
  have "local_ok (decoded (ls_video_sessions (snd (perform c w)) u))" for u
    using p ok by (cases c) (simp_all add: merge_session_ok)
  then show ?thesis using p by (simp add: local_inv_def)
qed

lemma run_local_inv: "local_inv w \<Longrightarrow> local_inv (snd (run cs w))"
proof (induction cs arbitrary: w)
  case Nil
  then show ?case by simp
next
  case (Cons c cs)
  have "local_inv (snd (perform c w))" using Cons.prems by (rule perform_local_inv)
  then have "local_inv (snd (run cs (snd (perform c w))))" by (rule Cons.IH)
  then show ?case by (simp only: snd_run_Cons)
qed



lemma start_local_inv: "local_inv (start (\<lambda>n. False))"
  by (simp add: local_inv_def always_down_def decodable_def start_def decoded_def local_ok_def)


section \<open>Order and size of the lists, appends\<close>

text \<open>
  The remote path returns at most 20 sessions, by last-watched descending, and the
  insights by timestamp ascending; the local path returns at most 20 sessions.
\<close>

lemma desc_sorted: "sorted_wrt (\<lambda>a b. key b \<le> key a) (desc key rows)"
proof -
  have "sorted (map key (sort_key key rows))" by (rule sorted_sort_key)
  then have "sorted_wrt (\<lambda>a b. key a \<le> key b) (sort_key key rows)"
    by (simp add: sorted_wrt_map)
  then show ?thesis by (simp add: desc_def sorted_wrt_rev)
qed

lemma asc_sorted: "sorted_wrt (\<lambda>a b. key a \<le> key b) (asc key rows)"
proof -
  have "sorted (map key (sort_key key rows))" by (rule sorted_sort_key)
  then show ?thesis by (simp add: asc_def sorted_wrt_map)
qed

lemma remote_sessions_listed:
  assumes "backend w 0" "backend w 1"
  shows "\<exists>rows. fst (getVideoSessions u w) = Inr (map Wire rows) \<and> length rows \<le> 20
           \<and> sorted_wrt (\<lambda>a b. lastWatched b \<le> lastWatched a) rows"
proof -
  let ?rows = "list_rows (\<lambda>r. userId r = u) (desc lastWatched) (Some 20) (videoSessions w)"
  have "fst (getVideoSessions u w) = Inr (map Wire ?rows)"
    using assms by (simp add: getVideoSessions_remote)
  moreover have "length ?rows \<le> 20" by (simp add: list_rows_def)
  moreover have "sorted_wrt (\<lambda>a b. lastWatched b \<le> lastWatched a) ?rows"
    by (simp add: list_rows_def sorted_wrt_take desc_sorted)
  ultimately show ?thesis by blast
qed

lemma remote_insights_listed:
  assumes "backend w 0" "backend w 1"
  shows "\<exists>rows. fst (getPauseInsights k w) = Inr (map WireI rows)
           \<and> sorted_wrt (\<lambda>a b. wi_timestamp a \<le> wi_timestamp b) rows"
proof -
  let ?rows = "list_rows (\<lambda>r. sessionId r = k) (asc wi_timestamp) None (pauseInsights w)"
  have "fst (getPauseInsights k w) = Inr (map WireI ?rows)"
    using assms by (simp add: getPauseInsights_remote)
  moreover have "sorted_wrt (\<lambda>a b. wi_timestamp a \<le> wi_timestamp b) ?rows"
    by (simp add: list_rows_def asc_sorted)
  ultimately show ?thesis by blast
qed

lemma local_sessions_listed:
  "\<exists>xs. fst (getVideoSessions u (snd (run pre (start (\<lambda>n. False))))) = Inr xs \<and> length xs \<le> 20"
proof -
  let ?w = "snd (run pre (start (\<lambda>n. False)))"
  have inv: "local_inv ?w" using start_local_inv by (rule run_local_inv)
  then have b: "\<not> backend ?w 0" and d: "ls_video_sessions ?w u \<noteq> Some Malformed"
    and ok: "local_ok (decoded (ls_video_sessions ?w u))"
    by (simp_all add: local_inv_def always_down_def decodable_def)
  have "fst (getVideoSessions u ?w) = Inr (decoded (ls_video_sessions ?w u))"
    by (simp add: getVideoSessions_probe_fails [OF b] parse_decoded [OF d])
  then show ?thesis using ok by (simp add: local_ok_def)
qed

text \<open>A save of an insight on the remote path and on the local path: it appends.\<close>

lemma remote_insights_append:
  assumes "backend w 0" "backend w 1"
  shows "fst (savePauseInsight i w) = Inr ()
    \<and> pauseInsights (snd (savePauseInsight i w)) = pauseInsights w @ [insight_row i]
    \<and> ls_pause_insights (snd (savePauseInsight i w)) = ls_pause_insights w"
  using assms by (simp add: savePauseInsight_remote create_row_def)

lemma local_insights_append:
  assumes "\<not> backend w 0" "\<not> backend w 1" "ls_pause_insights w (session_id i) \<noteq> Some Malformed"
  shows "fst (savePauseInsight i w) = Inr ()
    \<and> ls_pause_insights (snd (savePauseInsight i w)) (session_id i)
        = Some (Json (decoded (ls_pause_insights w (session_id i)) @ [MemI i]))
    \<and> (\<forall>k. k \<noteq> session_id i \<longrightarrow>
          ls_pause_insights (snd (savePauseInsight i w)) k = ls_pause_insights w k)
    \<and> pauseInsights (snd (savePauseInsight i w)) = pauseInsights w"
  using assms by (simp add: savePauseInsight_down)

section \<open>The fallback of a save\<close>

text \<open>The fallback of a save: where it starts and what it reads.\<close>

lemma fallback_calls_list:
  "(\<not> (backend w 0 \<and> backend w 1 \<and> backend w 2) \<longrightarrow>
      saveVideoSession s w =
        saveVideoSession_local s
          ((if \<not> backend w 0 then tick w
            else if \<not> backend w 1 then tick (tick w)
            else tick (tick (tick w)))\<lparr>dbAvailable := False\<rparr>))
   \<and> (\<not> (backend w 0 \<and> backend w 1) \<longrightarrow>
      savePauseInsight i w =
        savePauseInsight_local i
          ((if \<not> backend w 0 then tick w else tick (tick w))\<lparr>dbAvailable := False\<rparr>))
   \<and> (fst (getVideoSessions (user_id s) w0) = Inr xs \<longrightarrow>
        fst (saveVideoSession_local s w0) = Inr ()
      \<and> ls_video_sessions (snd (saveVideoSession_local s w0)) (user_id s)
          = Some (Json (merge_session s xs)))
   \<and> (fst (getPauseInsights (session_id i) w0) = Inr ys \<longrightarrow>
        fst (savePauseInsight_local i w0) = Inr ()
      \<and> ls_pause_insights (snd (savePauseInsight_local i w0)) (session_id i)
          = Some (Json (ys @ [MemI i])))"
proof (intro conjI impI)
  assume "\<not> (backend w 0 \<and> backend w 1 \<and> backend w 2)"
  then show "saveVideoSession s w =
        saveVideoSession_local s
          ((if \<not> backend w 0 then tick w
            else if \<not> backend w 1 then tick (tick w)
            else tick (tick (tick w)))\<lparr>dbAvailable := False\<rparr>)"
    by (auto simp: saveVideoSession_def checkDatabaseAvailability_def db_videoSessions_list_def
        db_videoSessions_update_def db_videoSessions_create_def tick_def numeral_2_eq_2
        split: list.splits)
next
  assume "\<not> (backend w 0 \<and> backend w 1)"
  then show "savePauseInsight i w =
        savePauseInsight_local i
          ((if \<not> backend w 0 then tick w else tick (tick w))\<lparr>dbAvailable := False\<rparr>)"
    by (auto simp: savePauseInsight_def checkDatabaseAvailability_def db_videoSessions_list_def
        db_pauseInsights_create_def tick_def)
next
  assume h: "fst (getVideoSessions (user_id s) w0) = Inr xs"
  then show "fst (saveVideoSession_local s w0) = Inr ()"
    by (cases "getVideoSessions (user_id s) w0") (simp add: saveVideoSession_local_def)
  from h show "ls_video_sessions (snd (saveVideoSession_local s w0)) (user_id s)
          = Some (Json (merge_session s xs))"
    by (cases "getVideoSessions (user_id s) w0") (simp add: saveVideoSession_local_def)
next
  assume h: "fst (getPauseInsights (session_id i) w0) = Inr ys"
  then show "fst (savePauseInsight_local i w0) = Inr ()"
    by (cases "getPauseInsights (session_id i) w0") (simp add: savePauseInsight_local_def)
  from h show "ls_pause_insights (snd (savePauseInsight_local i w0)) (session_id i)
          = Some (Json (ys @ [MemI i]))"
    by (cases "getPauseInsights (session_id i) w0") (simp add: savePauseInsight_local_def)
qed

lemma reprobe_reads_remote:
  "(\<not> backend w 0 \<and> backend w 1 \<and> backend w 2 \<longrightarrow>
      saveVideoSession s w =
        (Inr (), (tick (tick (tick w)))\<lparr>dbAvailable := True,
           ls_video_sessions := (ls_video_sessions w)(user_id s \<mapsto>
             Json (merge_session s (map Wire
               (list_rows (\<lambda>r. userId r = user_id s) (desc lastWatched) (Some 20) (videoSessions w)))))\<rparr>))
   \<and> (backend w 0 \<and> backend w 1 \<and> \<not> backend w 2 \<and> backend w 3 \<and> backend w 4 \<longrightarrow>
      saveVideoSession s w =
        (Inr (), (tick (tick (tick (tick (tick w)))))\<lparr>dbAvailable := True,
           ls_video_sessions := (ls_video_sessions w)(user_id s \<mapsto>
             Json (merge_session s (map Wire
               (list_rows (\<lambda>r. userId r = user_id s) (desc lastWatched) (Some 20) (videoSessions w)))))\<rparr>))
   \<and> (\<not> backend w 0 \<and> backend w 1 \<and> backend w 2 \<longrightarrow>
      savePauseInsight i w =
        (Inr (), (tick (tick (tick w)))\<lparr>dbAvailable := True,
           ls_pause_insights := (ls_pause_insights w)(session_id i \<mapsto>
             Json (map WireI
               (list_rows (\<lambda>r. sessionId r = session_id i) (asc wi_timestamp) None (pauseInsights w))
               @ [MemI i]))\<rparr>))
   \<and> (backend w 0 \<and> \<not> backend w 1 \<and> backend w 2 \<and> backend w 3 \<longrightarrow>
      savePauseInsight i w =
        (Inr (), (tick (tick (tick (tick w))))\<lparr>dbAvailable := True,
           ls_pause_insights := (ls_pause_insights w)(session_id i \<mapsto>
             Json (map WireI
               (list_rows (\<lambda>r. sessionId r = session_id i) (asc wi_timestamp) None (pauseInsights w))
               @ [MemI i]))\<rparr>))"
proof (intro conjI impI)
  assume h: "\<not> backend w 0 \<and> backend w 1 \<and> backend w 2"
  show "saveVideoSession s w =
        (Inr (), (tick (tick (tick w)))\<lparr>dbAvailable := True,
           ls_video_sessions := (ls_video_sessions w)(user_id s \<mapsto>
             Json (merge_session s (map Wire
               (list_rows (\<lambda>r. userId r = user_id s) (desc lastWatched) (Some 20) (videoSessions w)))))\<rparr>)"
    using h by (simp add: call_defs numeral_2_eq_2)
next
  assume h: "backend w 0 \<and> backend w 1 \<and> \<not> backend w 2 \<and> backend w 3 \<and> backend w 4"
  show "saveVideoSession s w =
        (Inr (), (tick (tick (tick (tick (tick w)))))\<lparr>dbAvailable := True,
           ls_video_sessions := (ls_video_sessions w)(user_id s \<mapsto>
             Json (merge_session s (map Wire
               (list_rows (\<lambda>r. userId r = user_id s) (desc lastWatched) (Some 20) (videoSessions w)))))\<rparr>)"
    using h by (simp add: call_defs numeral_2_eq_2 numeral_3_eq_3 eval_nat_numeral split: list.splits)
next
  assume h: "\<not> backend w 0 \<and> backend w 1 \<and> backend w 2"
  show "savePauseInsight i w =
        (Inr (), (tick (tick (tick w)))\<lparr>dbAvailable := True,
           ls_pause_insights := (ls_pause_insights w)(session_id i \<mapsto>
             Json (map WireI
               (list_rows (\<lambda>r. sessionId r = session_id i) (asc wi_timestamp) None (pauseInsights w))
               @ [MemI i]))\<rparr>)"
    using h by (simp add: call_defs numeral_2_eq_2)
next
  assume h: "backend w 0 \<and> \<not> backend w 1 \<and> backend w 2 \<and> backend w 3"
  show "savePauseInsight i w =
        (Inr (), (tick (tick (tick (tick w))))\<lparr>dbAvailable := True,
           ls_pause_insights := (ls_pause_insights w)(session_id i \<mapsto>
             Json (map WireI
               (list_rows (\<lambda>r. sessionId r = session_id i) (asc wi_timestamp) None (pauseInsights w))
               @ [MemI i]))\<rparr>)"
    using h by (simp add: call_defs numeral_2_eq_2 numeral_3_eq_3)
qed

section \<open>The two paths, step by step\<close>


















section \<open>The claims\<close>






text \<open>
  C3. The claim: \<^verbatim>\<open>listSessions\<close> returns at most 20 records ordered by last-watched
  descending, on both paths. On the local path the order is the stored one: a new video
  is put in front (line 114), a video saved again stays where it was (line 112). With
  every remote call rejected, save \<open>v1\<close> at 10:00, \<open>v2\<close> at 11:00 and \<open>v1\<close> again at 12:00:
  the list returns \<open>v2\<close> (11:00) before \<open>v1\<close> (12:00), which is ascending. The remote
  path (line 55), for the same calls, returns \<open>v1\<close> (12:00) before \<open>v2\<close> (11:00).
\<close>

theorem local_sessions_not_by_last_watched:
  "fst (run [SaveSession (ex_session ''s1'' ''v1'' ''th1'' 0 t10),
             SaveSession (ex_session ''s2'' ''v2'' ''th2'' 0 t11),
             SaveSession (ex_session ''s1'' ''v1'' ''th1'' 120 t12),
             ListSessions ''u1'']
        (start (\<lambda>n. False)))
   = [Done, Done, Done,
      Sessions [Mem (ex_session ''s2'' ''v2'' ''th2'' 0 t11),
                Mem (ex_session ''s1'' ''v1'' ''th1'' 120 t12)]]
   \<and> last_watched (ex_session ''s2'' ''v2'' ''th2'' 0 t11)
       < last_watched (ex_session ''s1'' ''v1'' ''th1'' 120 t12)
   \<and> fst (run [SaveSession (ex_session ''s1'' ''v1'' ''th1'' 0 t10),
             SaveSession (ex_session ''s2'' ''v2'' ''th2'' 0 t11),
             SaveSession (ex_session ''s1'' ''v1'' ''th1'' 120 t12),
             ListSessions ''u1'']
        (start (\<lambda>n. True)))
   = [Done, Done, Done,
      Sessions [Wire (session_row (ex_session ''s1'' ''v1'' ''th1'' 120 t12)),
                Wire (session_row (ex_session ''s2'' ''v2'' ''th2'' 0 t11))]]"
  by (simp add: call_defs store_defs ex_defs)

text \<open>
  C4. The claim: \<^verbatim>\<open>listSessions\<close> and \<^verbatim>\<open>listInsights\<close> never raise, and on the local
  path a malformed stored value yields the empty list like an absent one. Lines 66 and
  141 call \<^verbatim>\<open>JSON.parse\<close> outside any \<^verbatim>\<open>try\<close>: with every remote call rejected and a
  malformed value stored, both calls raise.
\<close>

theorem malformed_value_raises:
  "fst (getVideoSessions ''u1'' ((start (\<lambda>n. False))\<lparr>ls_video_sessions := (\<lambda>k. Some Malformed)\<rparr>))
     = Inl SyntaxError
   \<and> fst (getPauseInsights ''sess1'' ((start (\<lambda>n. False))\<lparr>ls_pause_insights := (\<lambda>k. Some Malformed)\<rparr>))
     = Inl SyntaxError
   \<and> fst (getVideoSessions ''u1'' ((start (\<lambda>n. False))\<lparr>ls_video_sessions := (\<lambda>k. Some Malformed)\<rparr>))
     \<noteq> Inr []"
  by (simp add: call_defs store_defs ex_defs)

text \<open>
  C4, as amended: no failure of the remote store reaches the caller of \<^verbatim>\<open>listSessions\<close>
  or \<^verbatim>\<open>listInsights\<close>. When the probe and the query are answered the call returns the
  rows of the remote store; otherwise it returns what local storage holds under the key:
  the empty list for an absent or empty value, the decoded list for a value the facade
  wrote, and for a malformed value the \<^verbatim>\<open>SyntaxError\<close> of \<^verbatim>\<open>JSON.parse\<close> is raised.
\<close>

theorem list_result:
  "fst (getVideoSessions u w) =
     (if backend w 0 \<and> backend w 1
      then Inr (map Wire (list_rows (\<lambda>r. userId r = u) (desc lastWatched) (Some 20) (videoSessions w)))
      else (case ls_video_sessions w u of
              None \<Rightarrow> Inr [] | Some Blank \<Rightarrow> Inr [] | Some (Json xs) \<Rightarrow> Inr xs
            | Some Malformed \<Rightarrow> Inl SyntaxError))
   \<and> fst (getPauseInsights k w) =
     (if backend w 0 \<and> backend w 1
      then Inr (map WireI (list_rows (\<lambda>r. sessionId r = k) (asc wi_timestamp) None (pauseInsights w)))
      else (case ls_pause_insights w k of
              None \<Rightarrow> Inr [] | Some Blank \<Rightarrow> Inr [] | Some (Json xs) \<Rightarrow> Inr xs
            | Some Malformed \<Rightarrow> Inl SyntaxError))"
  by (simp add: call_defs parse_or_empty_def)

theorem list_result_witness:
  "fst (getVideoSessions ''u1'' (start (\<lambda>n. False))) = Inr []
   \<and> fst (getPauseInsights ''sess1'' (start (\<lambda>n. False))) = Inr []
   \<and> fst (getVideoSessions ''u1'' ((start (\<lambda>n. False))\<lparr>ls_video_sessions := (\<lambda>k. Some Blank)\<rparr>)) = Inr []
   \<and> fst (getVideoSessions ''u1'' ((start (\<lambda>n. False))\<lparr>ls_video_sessions := (\<lambda>k. Some Malformed)\<rparr>))
       = Inl SyntaxError"
  using list_result [of "''u1''" "start (\<lambda>n. False)" "''sess1''"]
        list_result [of "''u1''" "(start (\<lambda>n. False))\<lparr>ls_video_sessions := (\<lambda>k. Some Blank)\<rparr>" "''sess1''"]
        list_result [of "''u1''" "(start (\<lambda>n. False))\<lparr>ls_video_sessions := (\<lambda>k. Some Malformed)\<rparr>" "''sess1''"]
  by (simp add: start_def)

text \<open>
  C5. The claim: \<^verbatim>\<open>listInsights\<close> returns the insights of the session in ascending order
  of pause timestamp on both paths, whatever the order of the saves. On the local path
  line 170 appends and lines 140-141 return the stored list as it is. With every remote
  call rejected, an insight saved at 90 seconds and then one at 30 seconds are listed as
  90, 30; the remote path (line 131) would list them as 30, 90.
\<close>

theorem local_insights_in_call_order:
  "fst (run [SaveInsight (ex_insight ''i1'' 90), SaveInsight (ex_insight ''i2'' 30),
             ListInsights ''sess1'']
        (start (\<lambda>n. False)))
   = [Done, Done, Insights [MemI (ex_insight ''i1'' 90), MemI (ex_insight ''i2'' 30)]]
   \<and> timestamp (ex_insight ''i2'' 30) < timestamp (ex_insight ''i1'' 90)
   \<and> fst (run [SaveInsight (ex_insight ''i1'' 90), SaveInsight (ex_insight ''i2'' 30),
             ListInsights ''sess1'']
        (start (\<lambda>n. True)))
   = [Done, Done, Insights [WireI (insight_row (ex_insight ''i2'' 30)),
                            WireI (insight_row (ex_insight ''i1'' 90))]]"
  by (simp add: call_defs store_defs ex_defs)

text \<open>
  C6. The claim: when \<^verbatim>\<open>saveSession\<close> finds a record for the pair, only title, progress,
  duration and last-watched change, and id, video id, thumbnail and user id stay, on both
  paths. On the local path line 112 replaces the entry by the session passed in: after
  saving \<open>s1\<close> and then \<open>s2\<close> for the same video, the stored record has id \<open>s2\<close> and
  thumbnail \<open>th2\<close>.
\<close>

theorem local_save_replaces_entry:
  "ls_video_sessions
     (snd (run [SaveSession (ex_session ''s1'' ''v1'' ''th1'' 0 t10)]
            (start (\<lambda>n. False)))) ''u1''
     = Some (Json [Mem (ex_session ''s1'' ''v1'' ''th1'' 0 t10)])
   \<and> ls_video_sessions
     (snd (run [SaveSession (ex_session ''s1'' ''v1'' ''th1'' 0 t10),
                SaveSession (ex_session ''s2'' ''v1'' ''th2'' 120 t11)]
            (start (\<lambda>n. False)))) ''u1''
     = Some (Json [Mem (ex_session ''s2'' ''v1'' ''th2'' 120 t11)])
   \<and> get_id (Mem (ex_session ''s1'' ''v1'' ''th1'' 0 t10)) = Some ''s1''
   \<and> get_id (Mem (ex_session ''s2'' ''v1'' ''th2'' 120 t11)) = Some ''s2''
   \<and> get_thumbnail (Mem (ex_session ''s1'' ''v1'' ''th1'' 0 t10)) = Some ''th1''
   \<and> get_thumbnail (Mem (ex_session ''s2'' ''v1'' ''th2'' 120 t11)) = Some ''th2''"
  by (simp add: call_defs store_defs ex_defs)

text \<open>
  C6, as amended. On the remote path (probe, look-up and update answered, the look-up
  finding the row \<open>r\<close>): the save succeeds, the rows with the id of \<open>r\<close> get the title,
  progress, duration and last-watched of the session and nothing else changes, so that
  the ids, video ids, thumbnails and user ids of the table are as before; local storage
  is not written. On the local path (probe and second probe rejected, the stored list
  \<open>xs\<close> having an entry for the video at index \<open>i\<close>): the save succeeds and stores \<open>xs\<close>
  with the entry at \<open>i\<close> replaced by the session as a whole, cut to 20; the entry replaced
  had the same video id; the remote table is not written.
\<close>

theorem save_existing_pair:
  "(backend w 0 \<and> backend w 1 \<and> backend w 2
      \<and> list_rows (\<lambda>r. videoId r = video_id s \<and> userId r = user_id s) unordered (Some 1)
            (videoSessions w) = r # rest \<longrightarrow>
        fst (saveVideoSession s w) = Inr ()
      \<and> videoSessions (snd (saveVideoSession s w)) =
          map (\<lambda>x. if w_id x = w_id r
                    then x\<lparr>w_title := title s, w_progress := progress s,
                           w_duration := duration s, lastWatched := last_watched s\<rparr>
                    else x) (videoSessions w)
      \<and> map w_id (videoSessions (snd (saveVideoSession s w))) = map w_id (videoSessions w)
      \<and> map videoId (videoSessions (snd (saveVideoSession s w))) = map videoId (videoSessions w)
      \<and> map w_thumbnail (videoSessions (snd (saveVideoSession s w))) = map w_thumbnail (videoSessions w)
      \<and> map userId (videoSessions (snd (saveVideoSession s w))) = map userId (videoSessions w)
      \<and> ls_video_sessions (snd (saveVideoSession s w)) = ls_video_sessions w)
   \<and> (\<not> backend w 0 \<and> \<not> backend w 1
      \<and> ls_video_sessions w (user_id s) = Some (Json xs)
      \<and> findIndex (\<lambda>x. get_video_id x = Some (video_id s)) xs = Some i \<longrightarrow>
        fst (saveVideoSession s w) = Inr ()
      \<and> ls_video_sessions (snd (saveVideoSession s w)) (user_id s)
          = Some (Json (take 20 (xs[i := Mem s])))
      \<and> i < length xs \<and> get_video_id (xs ! i) = Some (video_id s)
      \<and> videoSessions (snd (saveVideoSession s w)) = videoSessions w)"
proof (intro conjI impI)
  assume h: "backend w 0 \<and> backend w 1 \<and> backend w 2
      \<and> list_rows (\<lambda>r. videoId r = video_id s \<and> userId r = user_id s) unordered (Some 1)
            (videoSessions w) = r # rest"
  then have sv: "saveVideoSession s w =
     (Inr (), (tick (tick (tick w)))\<lparr>dbAvailable := True,
        videoSessions := update_rows (w_id r) (session_partial s) (videoSessions w)\<rparr>)"
    by (simp add: saveVideoSession_remote remote_save_def)
  show "fst (saveVideoSession s w) = Inr ()" by (simp add: sv)
  show "videoSessions (snd (saveVideoSession s w)) =
          map (\<lambda>x. if w_id x = w_id r
                    then x\<lparr>w_title := title s, w_progress := progress s,
                           w_duration := duration s, lastWatched := last_watched s\<rparr>
                    else x) (videoSessions w)"
    by (simp add: sv update_rows_def session_partial_def)
  show "map w_id (videoSessions (snd (saveVideoSession s w))) = map w_id (videoSessions w)"
    by (simp add: sv update_rows_frame)
  show "map videoId (videoSessions (snd (saveVideoSession s w))) = map videoId (videoSessions w)"
    by (simp add: sv update_rows_frame)
  show "map w_thumbnail (videoSessions (snd (saveVideoSession s w))) = map w_thumbnail (videoSessions w)"
    by (simp add: sv update_rows_frame)
  show "map userId (videoSessions (snd (saveVideoSession s w))) = map userId (videoSessions w)"
    by (simp add: sv update_rows_frame)
  show "ls_video_sessions (snd (saveVideoSession s w)) = ls_video_sessions w"
    by (simp add: sv)
next
  assume h: "\<not> backend w 0 \<and> \<not> backend w 1
      \<and> ls_video_sessions w (user_id s) = Some (Json xs)
      \<and> findIndex (\<lambda>x. get_video_id x = Some (video_id s)) xs = Some i"
  then have sv: "saveVideoSession s w =
     (Inr (), (tick (tick w))\<lparr>dbAvailable := False,
        ls_video_sessions := (ls_video_sessions w)(user_id s \<mapsto>
           Json (merge_session s (decoded (ls_video_sessions w (user_id s)))))\<rparr>)"
    by (simp add: saveVideoSession_down)
  show "fst (saveVideoSession s w) = Inr ()" by (simp add: sv)
  show "ls_video_sessions (snd (saveVideoSession s w)) (user_id s)
          = Some (Json (take 20 (xs[i := Mem s])))"
    using h by (simp add: sv merge_session_def)
  show "i < length xs" using h findIndex_Some by fastforce
  show "get_video_id (xs ! i) = Some (video_id s)" using h findIndex_Some by fastforce
  show "videoSessions (snd (saveVideoSession s w)) = videoSessions w" by (simp add: sv)
qed

theorem save_existing_pair_witness:
  "list_rows (\<lambda>r. videoId r = ''v1'' \<and> userId r = ''u1'') unordered (Some 1)
       (videoSessions (ex_remote_session [True, True, True]))
     = [session_row (ex_session ''s1'' ''v1'' ''th1'' 0 t10)]
   \<and> videoSessions (snd (saveVideoSession (ex_session ''s2'' ''v1'' ''th2'' 120 t11)
       (ex_remote_session [True, True, True])))
     = [session_row (ex_session ''s1'' ''v1'' ''th1'' 120 t11)]
   \<and> findIndex (\<lambda>x. get_video_id x = Some ''v1'')
       [Mem (ex_session ''s1'' ''v1'' ''th1'' 0 t10)] = Some 0
   \<and> ls_video_sessions (snd (saveVideoSession (ex_session ''s2'' ''v1'' ''th2'' 120 t11)
       ((start (\<lambda>n. False))\<lparr>ls_video_sessions :=
          (\<lambda>k. Some (Json [Mem (ex_session ''s1'' ''v1'' ''th1'' 0 t10)]))\<rparr>))) ''u1''
     = Some (Json [Mem (ex_session ''s2'' ''v1'' ''th2'' 120 t11)])"
proof -
  have up: "backend (ex_remote_session [True, True, True]) 0
      \<and> backend (ex_remote_session [True, True, True]) 1
      \<and> backend (ex_remote_session [True, True, True]) 2"
    by (simp add: ex_defs numeral_2_eq_2)
  have found: "list_rows (\<lambda>r. videoId r = ''v1'' \<and> userId r = ''u1'') unordered (Some 1)
       (videoSessions (ex_remote_session [True, True, True]))
     = [session_row (ex_session ''s1'' ''v1'' ''th1'' 0 t10)]"
    by (simp add: store_defs ex_defs)
  have at: "findIndex (\<lambda>x. get_video_id x = Some ''v1'')
       [Mem (ex_session ''s1'' ''v1'' ''th1'' 0 t10)] = Some 0"
    by (simp add: ex_defs)
  show ?thesis
    using up found at
      save_existing_pair [of "ex_remote_session [True, True, True]"
               "ex_session ''s2'' ''v1'' ''th2'' 120 t11"
               "session_row (ex_session ''s1'' ''v1'' ''th1'' 0 t10)" "[]"]
      save_existing_pair [of "(start (\<lambda>n. False))\<lparr>ls_video_sessions :=
                  (\<lambda>k. Some (Json [Mem (ex_session ''s1'' ''v1'' ''th1'' 0 t10)]))\<rparr>"
               "ex_session ''s2'' ''v1'' ''th2'' 120 t11" _ _
               "[Mem (ex_session ''s1'' ''v1'' ''th1'' 0 t10)]" 0]
    by (simp add: store_defs ex_defs)
qed

text \<open>
  C7. The claim: \<^verbatim>\<open>saveInsight\<close> is append-only; every call adds one record to the stored
  collection of the session and no stored insight is ever overwritten or removed. The
  fallback (lines 168-171, under the comment "Fallback to localStorage") takes the list
  to append to from \<^verbatim>\<open>getPauseInsights\<close>, which probes again and, when the store answers,
  returns the rows of the remote store, not the local list. Take a remote store that
  answers every read and rejects every \<^verbatim>\<open>create\<close>: the first save stores the first
  insight locally, the second save overwrites the stored list with the second insight
  alone, and the remote table stays empty, so the first insight is lost.
\<close>

theorem fallback_overwrites_local_insights:
  "ls_pause_insights
     (snd (run [SaveInsight (ex_insight ''i1'' 30)]
            (start (script [True, False, True, True, True, False, True, True])))) ''sess1''
     = Some (Json [MemI (ex_insight ''i1'' 30)])
   \<and> ls_pause_insights
     (snd (run [SaveInsight (ex_insight ''i1'' 30), SaveInsight (ex_insight ''i2'' 90)]
            (start (script [True, False, True, True, True, False, True, True])))) ''sess1''
     = Some (Json [MemI (ex_insight ''i2'' 90)])
   \<and> pauseInsights
     (snd (run [SaveInsight (ex_insight ''i1'' 30), SaveInsight (ex_insight ''i2'' 90)]
            (start (script [True, False, True, True, True, False, True, True])))) = []
   \<and> fst (run [SaveInsight (ex_insight ''i1'' 30), SaveInsight (ex_insight ''i2'' 90)]
            (start (script [True, False, True, True, True, False, True, True]))) = [Done, Done]"
  by (simp add: call_defs store_defs ex_defs)

text \<open>
  C8. The claim: the translation between the in-memory names and the names of the wire
  is exact in both directions, so that a record saved through the remote path and then
  listed comes back with every field under its in-memory name. The source translates on
  the way out (lines 89-98, 151-160, and the names in the queries) and returns the result
  of \<^verbatim>\<open>list\<close> as it is (lines 53, 129). With every remote call answered, the session saved
  comes back as the row of the store: read as a \<^verbatim>\<open>VideoSession\<close> it has no \<^verbatim>\<open>video_id\<close>, no
  \<^verbatim>\<open>last_watched\<close> and no \<^verbatim>\<open>user_id\<close>; the insight comes back without \<^verbatim>\<open>session_id\<close>.
\<close>

theorem remote_list_keeps_wire_names:
  "fst (run [SaveSession (ex_session ''s1'' ''v1'' ''th1'' 0 t10), ListSessions ''u1'']
        (start (\<lambda>n. True)))
     = [Done, Sessions [Wire (session_row (ex_session ''s1'' ''v1'' ''th1'' 0 t10))]]
   \<and> get_video_id (Wire (session_row (ex_session ''s1'' ''v1'' ''th1'' 0 t10))) = None
   \<and> get_last_watched (Wire (session_row (ex_session ''s1'' ''v1'' ''th1'' 0 t10))) = None
   \<and> get_user_id (Wire (session_row (ex_session ''s1'' ''v1'' ''th1'' 0 t10))) = None
   \<and> fst (run [SaveInsight (ex_insight ''i1'' 30), ListInsights ''sess1''] (start (\<lambda>n. True)))
     = [Done, Insights [WireI (insight_row (ex_insight ''i1'' 30))]]
   \<and> get_session_id (WireI (insight_row (ex_insight ''i1'' 30))) = None"
  by (simp add: call_defs store_defs ex_defs)

text \<open>
  C9. A pause at a playback time below 30 seconds leaves the component and the stores as
  they were: nothing is requested from the generative-text service and nothing is saved.
  A pause at 30 seconds or later sends the request to the service.
\<close>

theorem handlePause_threshold:
  "(timestamp' < 30 \<longrightarrow> handlePause v u now today reply timestamp' (p, w) = (p, w))
   \<and> (30 \<le> timestamp' \<longrightarrow>
        prompts (fst (handlePause v u now today reply timestamp' (p, w)))
          = prompts p @ [(v, \<lfloor>timestamp'\<rfloor>)])"
  by (auto simp: handlePause_def Let_def split: generated.splits option.splits prod.splits sum.splits)

theorem handlePause_threshold_witness:
  "(59 / 2 :: number) < 30
   \<and> handlePause ''v1'' ''u1'' ''1714557600000'' t10 (Text None) (59 / 2)
      (ex_player, start (\<lambda>n. True)) = (ex_player, start (\<lambda>n. True))
   \<and> (30 :: number) \<le> 30
   \<and> prompts (fst (handlePause ''v1'' ''u1'' ''1714557600000'' t10 (Text None) 30
      (ex_player, start (\<lambda>n. True)))) = [(''v1'', 30)]"
proof -
  have early: "(59 / 2 :: number) < 30" and late: "(30 :: number) \<le> 30"
    by simp_all
  show ?thesis
    using early late
      handlePause_threshold [of "59 / 2" "''v1''" "''u1''" "''1714557600000''" t10
          "Text None" ex_player "start (\<lambda>n. True)"]
      handlePause_threshold [of 30 "''v1''" "''u1''" "''1714557600000''" t10
          "Text None" ex_player "start (\<lambda>n. True)"]
    by (simp add: ex_player_def)
qed

text \<open>
  C10. When a save falls back (a probe, the look-up or the remote write was rejected),
  it goes on as lines 107-119, respectively 168-171, from the world the rejected call
  left, with the flag false; and there the collection merged into is the result of the
  list operation of the facade, \<^verbatim>\<open>getVideoSessions\<close> respectively \<^verbatim>\<open>getPauseInsights\<close>,
  which starts with a probe of its own, and not a read of local storage. So when the
  first probe of \<^verbatim>\<open>saveSession\<close> is rejected and the next two remote calls are answered,
  or when its remote write is rejected after an answered probe and look-up and the next
  two remote calls are answered, the save succeeds, the flag is true at the end, the
  remote tables are as before, and the value written to local storage under the key of
  the user is the session merged into the rows that the remote store returned; what
  local storage held under that key is not read. Since a row has no \<^verbatim>\<open>video_id\<close>, the
  merge puts the session in front of the rows and cuts to 20. Likewise for
  \<^verbatim>\<open>saveInsight\<close>: the value written is the rows of the remote store for the session with
  the insight at the end.
\<close>

theorem fallback_reprobes:
  "(\<not> (backend w 0 \<and> backend w 1 \<and> backend w 2) \<longrightarrow>
      saveVideoSession s w =
        saveVideoSession_local s
          ((if \<not> backend w 0 then tick w
            else if \<not> backend w 1 then tick (tick w)
            else tick (tick (tick w)))\<lparr>dbAvailable := False\<rparr>))
   \<and> (\<not> (backend w 0 \<and> backend w 1) \<longrightarrow>
      savePauseInsight i w =
        savePauseInsight_local i
          ((if \<not> backend w 0 then tick w else tick (tick w))\<lparr>dbAvailable := False\<rparr>))
   \<and> (fst (getVideoSessions (user_id s) w0) = Inr xs \<longrightarrow>
        fst (saveVideoSession_local s w0) = Inr ()
      \<and> ls_video_sessions (snd (saveVideoSession_local s w0)) (user_id s)
          = Some (Json (merge_session s xs)))
   \<and> (fst (getPauseInsights (session_id i) w0) = Inr ys \<longrightarrow>
        fst (savePauseInsight_local i w0) = Inr ()
      \<and> ls_pause_insights (snd (savePauseInsight_local i w0)) (session_id i)
          = Some (Json (ys @ [MemI i])))
   \<and> (\<not> backend w 0 \<and> backend w 1 \<and> backend w 2 \<longrightarrow>
      saveVideoSession s w =
        (Inr (), (tick (tick (tick w)))\<lparr>dbAvailable := True,
           ls_video_sessions := (ls_video_sessions w)(user_id s \<mapsto>
             Json (merge_session s (map Wire
               (list_rows (\<lambda>r. userId r = user_id s) (desc lastWatched) (Some 20) (videoSessions w)))))\<rparr>))
   \<and> (backend w 0 \<and> backend w 1 \<and> \<not> backend w 2 \<and> backend w 3 \<and> backend w 4 \<longrightarrow>
      saveVideoSession s w =
        (Inr (), (tick (tick (tick (tick (tick w)))))\<lparr>dbAvailable := True,
           ls_video_sessions := (ls_video_sessions w)(user_id s \<mapsto>
             Json (merge_session s (map Wire
               (list_rows (\<lambda>r. userId r = user_id s) (desc lastWatched) (Some 20) (videoSessions w)))))\<rparr>))
   \<and> (\<not> backend w 0 \<and> backend w 1 \<and> backend w 2 \<longrightarrow>
      savePauseInsight i w =
        (Inr (), (tick (tick (tick w)))\<lparr>dbAvailable := True,
           ls_pause_insights := (ls_pause_insights w)(session_id i \<mapsto>
             Json (map WireI
               (list_rows (\<lambda>r. sessionId r = session_id i) (asc wi_timestamp) None (pauseInsights w))
               @ [MemI i]))\<rparr>))
   \<and> (backend w 0 \<and> \<not> backend w 1 \<and> backend w 2 \<and> backend w 3 \<longrightarrow>
      savePauseInsight i w =
        (Inr (), (tick (tick (tick (tick w))))\<lparr>dbAvailable := True,
           ls_pause_insights := (ls_pause_insights w)(session_id i \<mapsto>
             Json (map WireI
               (list_rows (\<lambda>r. sessionId r = session_id i) (asc wi_timestamp) None (pauseInsights w))
               @ [MemI i]))\<rparr>))
   \<and> merge_session s (map Wire rows) = take 20 (Mem s # map Wire rows)"
  using fallback_calls_list [of w s i w0 xs ys] reprobe_reads_remote [of w s i]
    merge_session_Wire [of s rows]
  by (intro conjI) blast+

theorem fallback_reprobes_witness:
  "ls_pause_insights (ex_two_insights [False, True, True]) ''sess1'' = Some (Json [MemI (ex_insight ''i0'' 45)])
   \<and> dbAvailable (snd (saveVideoSession (ex_session ''s2'' ''v1'' ''th2'' 120 t11) (ex_remote_session [False, True, True])))
   \<and> videoSessions (snd (saveVideoSession (ex_session ''s2'' ''v1'' ''th2'' 120 t11) (ex_remote_session [False, True, True])))
       = [session_row (ex_session ''s1'' ''v1'' ''th1'' 0 t10)]
   \<and> ls_video_sessions (snd (saveVideoSession (ex_session ''s2'' ''v1'' ''th2'' 120 t11) (ex_remote_session [False, True, True]))) ''u1''
       = Some (Json [Mem (ex_session ''s2'' ''v1'' ''th2'' 120 t11), Wire (session_row (ex_session ''s1'' ''v1'' ''th1'' 0 t10))])
   \<and> dbAvailable (snd (saveVideoSession (ex_session ''s2'' ''v1'' ''th2'' 120 t11) (ex_remote_session [True, True, False, True, True])))
   \<and> videoSessions (snd (saveVideoSession (ex_session ''s2'' ''v1'' ''th2'' 120 t11) (ex_remote_session [True, True, False, True, True])))
       = [session_row (ex_session ''s1'' ''v1'' ''th1'' 0 t10)]
   \<and> ls_video_sessions (snd (saveVideoSession (ex_session ''s2'' ''v1'' ''th2'' 120 t11) (ex_remote_session [True, True, False, True, True]))) ''u1''
       = Some (Json [Mem (ex_session ''s2'' ''v1'' ''th2'' 120 t11), Wire (session_row (ex_session ''s1'' ''v1'' ''th1'' 0 t10))])
   \<and> dbAvailable (snd (savePauseInsight (ex_insight ''i2'' 90) (ex_two_insights [False, True, True])))
   \<and> pauseInsights (snd (savePauseInsight (ex_insight ''i2'' 90) (ex_two_insights [False, True, True]))) = [insight_row (ex_insight ''i1'' 30)]
   \<and> ls_pause_insights (snd (savePauseInsight (ex_insight ''i2'' 90) (ex_two_insights [False, True, True]))) ''sess1''
       = Some (Json [WireI (insight_row (ex_insight ''i1'' 30)), MemI (ex_insight ''i2'' 90)])
   \<and> dbAvailable (snd (savePauseInsight (ex_insight ''i2'' 90) (ex_two_insights [True, False, True, True])))
   \<and> pauseInsights (snd (savePauseInsight (ex_insight ''i2'' 90) (ex_two_insights [True, False, True, True]))) = [insight_row (ex_insight ''i1'' 30)]
   \<and> ls_pause_insights (snd (savePauseInsight (ex_insight ''i2'' 90) (ex_two_insights [True, False, True, True]))) ''sess1''
       = Some (Json [WireI (insight_row (ex_insight ''i1'' 30)), MemI (ex_insight ''i2'' 90)])"
proof -
  note c = fallback_reprobes [THEN conjunct2, THEN conjunct2, THEN conjunct2, THEN conjunct2]
  note probe_s = c [THEN conjunct1, of "ex_remote_session [False, True, True]" "ex_session ''s2'' ''v1'' ''th2'' 120 t11"]
  note write_s = c [THEN conjunct2, THEN conjunct1, of "ex_remote_session [True, True, False, True, True]" "ex_session ''s2'' ''v1'' ''th2'' 120 t11"]
  note probe_i = c [THEN conjunct2, THEN conjunct2, THEN conjunct1, of "ex_two_insights [False, True, True]" "ex_insight ''i2'' 90"]
  note write_i = c [THEN conjunct2, THEN conjunct2, THEN conjunct2, THEN conjunct1,
      of "ex_two_insights [True, False, True, True]" "ex_insight ''i2'' 90"]
  show ?thesis
    using probe_s write_s probe_i write_i
    by (simp add: tick_def store_defs ex_defs eval_nat_numeral)
qed

end
